theory Spec2Isabelle
  imports Complex_Main "HOL-Library.Char_ord" "HOL-Library.List_Lexorder"
begin

section \<open>Data model: tables of cells\<close>

text \<open>
  The program (\<^verbatim>\<open>app.py\<close>) keeps its data in a pandas table. A table is modelled by
  its list of column labels and its list of rows; a row maps a column label to a cell.
  A cell is a number (pandas float or integer, here a real number: rounding of binary
  floating point and the infinities are left out), a text, a truth value, or the
  missing value (pandas \<^verbatim>\<open>NaN\<close>). A row carries \<open>Null\<close> at the labels that are
  not columns of its table. Texts are byte strings in UTF-8.
\<close>

datatype cell = Num real | Str string | Flag bool | Null

datatype error = KeyError string | TypeError

record frame =
  columns :: "string list"
  rows :: "(string \<Rightarrow> cell) list"

text \<open>
  What \<^verbatim>\<open>os.path.exists\<close> and \<^verbatim>\<open>pd.read_csv\<close> find: no file, a file that
  \<^verbatim>\<open>read_csv\<close> raises on (unreadable, not a table, no header), or a table.
\<close>

datatype source = Missing | Unreadable | Csv frame

text \<open>
  The three pandas conversions the program calls are library code. They are parameters of
  the model, so every theorem holds for each behaviour they may have:
  \<^item> \<open>to_datetime\<close> is \<^verbatim>\<open>pd.to_datetime\<close> on a column, \<open>None\<close> when it raises;
  \<^item> \<open>str_of_num\<close> is the text \<^verbatim>\<open>astype(str)\<close> gives a number;
  \<^item> \<open>parse_num\<close> is the number \<^verbatim>\<open>pd.to_numeric(errors='coerce')\<close> reads from a
    text, \<open>None\<close> when the text is coerced to \<^verbatim>\<open>NaN\<close>.
\<close>

record pandas =
  to_datetime :: "cell list \<Rightarrow> cell list option"
  str_of_num :: "real \<Rightarrow> string"
  parse_num :: "string \<Rightarrow> real option"

text \<open>Sequencing of steps that may raise: the first error ends the computation.\<close>

definition and_then :: "error + 'a \<Rightarrow> ('a \<Rightarrow> error + 'b) \<Rightarrow> error + 'b" where
  "and_then x f = (case x of Inl e \<Rightarrow> Inl e | Inr v \<Rightarrow> f v)"

definition has_column :: "frame \<Rightarrow> string \<Rightarrow> bool" where
  "has_column d c = (c \<in> set (columns d))"

definition column :: "frame \<Rightarrow> string \<Rightarrow> cell list" where
  "column d c = map (\<lambda>r. r c) (rows d)"

text \<open>\<^verbatim>\<open>df[c] = e\<close> where \<open>e\<close> is computed row by row (or is one scalar for all rows).\<close>

definition assign :: "string \<Rightarrow> ((string \<Rightarrow> cell) \<Rightarrow> cell) \<Rightarrow> frame \<Rightarrow> frame" where
  "assign c f d =
     \<lparr>columns = (if c \<in> set (columns d) then columns d else columns d @ [c]),
      rows = map (\<lambda>r. r(c := f r)) (rows d)\<rparr>"

text \<open>\<^verbatim>\<open>df[c] = vs\<close> for a column of values \<open>vs\<close> of the table's length.\<close>

definition assign_values :: "string \<Rightarrow> cell list \<Rightarrow> frame \<Rightarrow> frame" where
  "assign_values c vs d =
     \<lparr>columns = (if c \<in> set (columns d) then columns d else columns d @ [c]),
      rows = map (\<lambda>(r, v). r(c := v)) (zip (rows d) vs)\<rparr>"

definition row_of :: "(string \<times> cell) list \<Rightarrow> string \<Rightarrow> cell" where
  "row_of kvs c = (case map_of kvs c of Some v \<Rightarrow> v | None \<Rightarrow> Null)"

section \<open>Text helpers\<close>

text \<open>
  \<^verbatim>\<open>str.strip()\<close> removes leading and trailing white space. The ASCII white space of
  Python is modelled (tab, line feed, vertical tab, form feed, carriage return, the four
  separators \<open>0x1C\<close> to \<open>0x1F\<close>, space); white space beyond ASCII is not.
\<close>

definition is_space :: "char \<Rightarrow> bool" where
  "is_space c = (c \<in> set [CHR 0x09, CHR 0x0A, CHR 0x0B, CHR 0x0C, CHR 0x0D,
                          CHR 0x1C, CHR 0x1D, CHR 0x1E, CHR 0x1F, CHR 0x20])"

definition strip :: "string \<Rightarrow> string" where
  "strip s = rev (dropWhile is_space (rev (dropWhile is_space s)))"

text \<open>The byte order mark (code point \<open>U+FEFF\<close>) in UTF-8, and the removal of each of its
  occurrences from a text, as \<^verbatim>\<open>str.replace\<close> does.\<close>

definition bom :: string where
  "bom = [CHR 0xEF, CHR 0xBB, CHR 0xBF]"

fun remove_bom :: "string \<Rightarrow> string" where
  "remove_bom (a # b # c # s) =
     (if [a, b, c] = bom then remove_bom s else a # remove_bom (b # c # s))"
| "remove_bom s = s"

section \<open>Data preparation: \<^verbatim>\<open>create_sample_data\<close> and \<^verbatim>\<open>load_data\<close>\<close>

definition sample_columns :: "string list" where
  "sample_columns =
     [''CaseNumber'', ''Judge_Full_Name'', ''ChargeOffenseDescription'', ''Statute'',
      ''Statute_Description'', ''Race_Tier_1'', ''Gender'', ''Jail_Days'',
      ''Probation_Days_Clean'', ''CommunityControl_Days'', ''CommunityService_Hours'',
      ''DispositionDescription'', ''Has_Sentence'']"

definition sample_row ::
  "string \<Rightarrow> string \<Rightarrow> string \<Rightarrow> string \<Rightarrow> string \<Rightarrow> string \<Rightarrow> string \<Rightarrow>
   real \<Rightarrow> real \<Rightarrow> real \<Rightarrow> real \<Rightarrow> string \<Rightarrow> bool \<Rightarrow> string \<Rightarrow> cell" where
  "sample_row cn j ch st sd ra g jd pd cd cs dd hs =
     row_of [(''CaseNumber'', Str cn), (''Judge_Full_Name'', Str j),
             (''ChargeOffenseDescription'', Str ch), (''Statute'', Str st),
             (''Statute_Description'', Str sd), (''Race_Tier_1'', Str ra),
             (''Gender'', Str g), (''Jail_Days'', Num jd),
             (''Probation_Days_Clean'', Num pd), (''CommunityControl_Days'', Num cd),
             (''CommunityService_Hours'', Num cs), (''DispositionDescription'', Str dd),
             (''Has_Sentence'', Flag hs)]"

definition create_sample_data :: frame where
  "create_sample_data =
     \<lparr>columns = sample_columns,
      rows =
       [sample_row ''SAMPLE001'' ''John Smith'' ''POSSESSION OF FIREARM BY CONVICTED FELON''
          ''790.23'' ''Firearm Violations'' ''B'' ''M'' 365 0 0 0 ''Adjudicated Guilty'' True,
        sample_row ''SAMPLE002'' ''Mary Johnson'' ''BATTERY ON LAW ENFORCEMENT OFFICER''
          ''784.07'' ''Battery'' ''W'' ''F'' 0 730 0 100 ''Adjudicated Guilty'' True,
        sample_row ''SAMPLE003'' ''John Smith'' ''DRIVING UNDER THE INFLUENCE''
          ''316.193'' ''DUI'' ''H'' ''M'' 30 365 0 50 ''Adjudicated Guilty'' True,
        sample_row ''SAMPLE004'' ''Robert Brown'' ''POSSESSION OF CONTROLLED SUBSTANCE''
          ''893.13'' ''Drug Possession'' ''B'' ''F'' 180 365 180 40 ''Adjudicated Guilty'' True,
        sample_row ''SAMPLE005'' ''Mary Johnson'' ''THEFT OF MOTOR VEHICLE''
          ''812.014'' ''Theft'' ''W'' ''M'' 0 1095 0 200 ''Nolle Prosequi'' True]\<rparr>"

subsection \<open>Column labels: removing the byte order mark\<close>

text \<open>
  The assignment to \<^verbatim>\<open>df.columns\<close> relabels the columns, each label without its byte
  order marks. A row of the relabelled table reads, at a new label, the cell of the first
  column that got that label (\<^verbatim>\<open>read_csv\<close> gives distinct labels; two labels that differ only by byte order
  marks are not modelled further).
\<close>

definition strip_bom_columns :: "frame \<Rightarrow> frame" where
  "strip_bom_columns d =
     \<lparr>columns = map remove_bom (columns d),
      rows = map (\<lambda>r c'. case find (\<lambda>c. remove_bom c = c') (columns d) of
                             Some c \<Rightarrow> r c | None \<Rightarrow> Null) (rows d)\<rparr>"

subsection \<open>Dates\<close>

definition date_columns :: "string list" where
  "date_columns = [''FileDate'', ''OffenseDate'', ''DispositionDate'']"

text \<open>
  One pass of the loop over \<open>date_columns\<close>: a column that exists is converted; when the
  conversion raises (or its result cannot be stored), the \<^verbatim>\<open>except\<close> leaves the column
  as it was.
\<close>

definition convert_date :: "pandas \<Rightarrow> string \<Rightarrow> frame \<Rightarrow> frame" where
  "convert_date L c d =
     (if c \<in> set (columns d) then
        (case to_datetime L (column d c) of
           Some vs \<Rightarrow> if length vs = length (rows d) then assign_values c vs d else d
         | None \<Rightarrow> d)
      else d)"

definition convert_dates :: "pandas \<Rightarrow> frame \<Rightarrow> frame" where
  "convert_dates L d = foldl (\<lambda>d c. convert_date L c d) d date_columns"

subsection \<open>Text columns\<close>

definition text_columns :: "string list" where
  "text_columns =
     [''Judge'', ''Judge_First_Name'', ''Judge_Last_Name'', ''ChargeOffenseDescription'',
      ''Statute'', ''Statute_Description'', ''DispositionDescription'', ''Race_Tier_1'',
      ''Gender'', ''ConfinementType'']"

text \<open>\<^verbatim>\<open>astype(str)\<close> on one cell: the missing value becomes the text \<^verbatim>\<open>nan\<close>.\<close>

fun astype_str :: "pandas \<Rightarrow> cell \<Rightarrow> string" where
  "astype_str L (Str s) = s"
| "astype_str L (Num x) = str_of_num L x"
| "astype_str L (Flag b) = (if b then ''True'' else ''False'')"
| "astype_str L Null = ''nan''"

definition clean_text_column :: "pandas \<Rightarrow> string \<Rightarrow> frame \<Rightarrow> frame" where
  "clean_text_column L c d =
     (if c \<in> set (columns d) then assign c (\<lambda>r. Str (strip (astype_str L (r c)))) d else d)"

definition clean_text :: "pandas \<Rightarrow> frame \<Rightarrow> frame" where
  "clean_text L d = foldl (\<lambda>d c. clean_text_column L c d) d text_columns"

subsection \<open>Sentence durations\<close>

text \<open>
  \<^verbatim>\<open>pd.to_numeric(col, errors='coerce')\<close> on one cell (\<open>None\<close> is \<^verbatim>\<open>NaN\<close>), and
  \<^verbatim>\<open>.fillna(0)\<close>.
\<close>

fun to_numeric :: "pandas \<Rightarrow> cell \<Rightarrow> real option" where
  "to_numeric L (Num x) = Some x"
| "to_numeric L (Str s) = parse_num L s"
| "to_numeric L (Flag b) = Some (if b then 1 else 0)"
| "to_numeric L Null = None"

definition fillna0 :: "real option \<Rightarrow> real" where
  "fillna0 v = (case v of None \<Rightarrow> 0 | Some x \<Rightarrow> x)"

definition numeric_or_zero :: "pandas \<Rightarrow> cell \<Rightarrow> real" where
  "numeric_or_zero L v = fillna0 (to_numeric L v)"

definition jail_days :: "pandas \<Rightarrow> frame \<Rightarrow> frame" where
  "jail_days L d =
     (if ''MaxCnfmnt_Days'' \<in> set (columns d)
      then assign ''Jail_Days'' (\<lambda>r. Num (numeric_or_zero L (r ''MaxCnfmnt_Days''))) d
      else assign ''Jail_Days'' (\<lambda>r. Num 0) d)"

definition probation_days :: "pandas \<Rightarrow> frame \<Rightarrow> frame" where
  "probation_days L d =
     (if ''Probation_Days'' \<in> set (columns d)
      then assign ''Probation_Days_Clean''
             (\<lambda>r. Num (numeric_or_zero L (r ''Probation_Days''))) d
      else if ''Probation_Mths'' \<in> set (columns d)
      then assign ''Probation_Days_Clean''
             (\<lambda>r. Num (numeric_or_zero L (r ''Probation_Mths'') * 30)) d
      else if ''Probation_Yrs'' \<in> set (columns d)
      then assign ''Probation_Days_Clean''
             (\<lambda>r. Num (numeric_or_zero L (r ''Probation_Yrs'') * 365)) d
      else assign ''Probation_Days_Clean'' (\<lambda>r. Num 0) d)"

definition community_control_days :: "pandas \<Rightarrow> frame \<Rightarrow> frame" where
  "community_control_days L d =
     (if ''ComCntrl_Days'' \<in> set (columns d)
      then assign ''CommunityControl_Days''
             (\<lambda>r. Num (numeric_or_zero L (r ''ComCntrl_Days''))) d
      else if ''ComCntrl_Mths'' \<in> set (columns d)
      then assign ''CommunityControl_Days''
             (\<lambda>r. Num (numeric_or_zero L (r ''ComCntrl_Mths'') * 30)) d
      else if ''ComCntrl_Yrs'' \<in> set (columns d)
      then assign ''CommunityControl_Days''
             (\<lambda>r. Num (numeric_or_zero L (r ''ComCntrl_Yrs'') * 365)) d
      else assign ''CommunityControl_Days'' (\<lambda>r. Num 0) d)"

definition community_service_hours :: "pandas \<Rightarrow> frame \<Rightarrow> frame" where
  "community_service_hours L d =
     (if ''CommunityService'' \<in> set (columns d)
      then assign ''CommunityService_Hours''
             (\<lambda>r. Num (numeric_or_zero L (r ''CommunityService''))) d
      else assign ''CommunityService_Hours'' (\<lambda>r. Num 0) d)"

subsection \<open>The flag \<^verbatim>\<open>Has_Sentence\<close>\<close>

text \<open>
  \<^verbatim>\<open>col > 0\<close> on one cell. The four columns compared are numeric when the comparison
  runs; a missing value compares false.
\<close>

fun positive :: "cell \<Rightarrow> bool" where
  "positive (Num x) = (0 < x)"
| "positive (Flag b) = b"
| "positive _ = False"

definition has_sentence :: "frame \<Rightarrow> frame" where
  "has_sentence d =
     assign ''Has_Sentence''
       (\<lambda>r. Flag (positive (r ''Jail_Days'') \<or> positive (r ''Probation_Days_Clean'') \<or>
                   positive (r ''CommunityControl_Days'') \<or>
                   positive (r ''CommunityService_Hours''))) d"

subsection \<open>The judge's name\<close>

text \<open>
  \<^verbatim>\<open>+\<close> between two cells of text columns: texts are concatenated, a missing value
  gives a missing value, numbers add, and a text with a number or a truth value raises
  \<^verbatim>\<open>TypeError\<close>.
\<close>

fun cell_add :: "cell \<Rightarrow> cell \<Rightarrow> error + cell" where
  "cell_add (Str a) (Str b) = Inr (Str (a @ b))"
| "cell_add Null _ = Inr Null"
| "cell_add _ Null = Inr Null"
| "cell_add (Num a) (Num b) = Inr (Num (a + b))"
| "cell_add _ _ = Inl TypeError"

definition fillna_empty :: "cell \<Rightarrow> cell" where
  "fillna_empty v = (case v of Null \<Rightarrow> Str [] | _ \<Rightarrow> v)"

text \<open>
  One row of
  \<^verbatim>\<open>df['Judge_First_Name'] + ' ' + df['Judge_Middle_Intial'].fillna('') + ' ' + df['Judge_Last_Name']\<close>.
\<close>

definition name_of_parts :: "(string \<Rightarrow> cell) \<Rightarrow> error + cell" where
  "name_of_parts r =
     and_then (cell_add (r ''Judge_First_Name'') (Str '' ''))
       (\<lambda>a. and_then (cell_add a (fillna_empty (r ''Judge_Middle_Intial'')))
          (\<lambda>b. and_then (cell_add b (Str '' ''))
             (\<lambda>c. cell_add c (r ''Judge_Last_Name''))))"

text \<open>A column computed row by row where a row may raise: the first raise ends it.\<close>

fun collect :: "(error + 'a) list \<Rightarrow> error + 'a list" where
  "collect [] = Inr []"
| "collect (x # xs) = and_then x (\<lambda>v. and_then (collect xs) (\<lambda>vs. Inr (v # vs)))"

text \<open>\<^verbatim>\<open>.str.strip()\<close> on one cell: a cell that is no text becomes missing.\<close>

fun str_strip :: "cell \<Rightarrow> cell" where
  "str_strip (Str s) = Str (strip s)"
| "str_strip _ = Null"

text \<open>\<^verbatim>\<open>.replace(['nan', 'NaN', ''], 'Unknown')\<close> on one cell.\<close>

definition replace_unknown :: "cell \<Rightarrow> cell" where
  "replace_unknown v =
     (if v \<in> set [Str ''nan'', Str ''NaN'', Str []] then Str ''Unknown'' else v)"

definition name_part_columns :: "string list" where
  "name_part_columns = [''Judge_First_Name'', ''Judge_Middle_Intial'', ''Judge_Last_Name'']"

definition judge_full_name :: "frame \<Rightarrow> error + frame" where
  "judge_full_name d =
     and_then
       (if list_all (\<lambda>c. c \<in> set (columns d)) name_part_columns then
          and_then (collect (map name_of_parts (rows d)))
            (\<lambda>vs. Inr (assign ''Judge_Full_Name'' (\<lambda>r. str_strip (r ''Judge_Full_Name''))
                         (assign_values ''Judge_Full_Name'' vs d)))
        else if ''Judge'' \<in> set (columns d) then
          Inr (assign ''Judge_Full_Name'' (\<lambda>r. r ''Judge'') d)
        else Inr (assign ''Judge_Full_Name'' (\<lambda>r. Str ''Unknown'') d))
       (\<lambda>d'. Inr (assign ''Judge_Full_Name''
                     (\<lambda>r. replace_unknown (r ''Judge_Full_Name'')) d'))"

subsection \<open>\<^verbatim>\<open>load_data\<close>\<close>

text \<open>
  The body of the \<^verbatim>\<open>try\<close> once the table is read and has a row, in the order of the
  source: labels, dates, text columns, the four durations, the flag, the judge's name.
\<close>

definition relabelled :: "frame \<Rightarrow> frame" where
  "relabelled raw = strip_bom_columns raw"

definition cleaned :: "pandas \<Rightarrow> frame \<Rightarrow> frame" where
  "cleaned L raw = clean_text L (convert_dates L (relabelled raw))"

definition durations :: "pandas \<Rightarrow> frame \<Rightarrow> frame" where
  "durations L d =
     community_service_hours L (community_control_days L (probation_days L (jail_days L d)))"

definition prepare :: "pandas \<Rightarrow> frame \<Rightarrow> error + frame" where
  "prepare L raw = judge_full_name (has_sentence (durations L (cleaned L raw)))"

text \<open>
  \<^verbatim>\<open>load_data\<close>: every \<^verbatim>\<open>return create_sample_data()\<close> of the source is a branch,
  the last one being the \<^verbatim>\<open>except Exception\<close> around the whole body.
\<close>

definition load_data :: "pandas \<Rightarrow> source \<Rightarrow> frame" where
  "load_data L src =
     (case src of
        Missing \<Rightarrow> create_sample_data
      | Unreadable \<Rightarrow> create_sample_data
      | Csv raw \<Rightarrow>
          if length (rows raw) = 0 then create_sample_data
          else (case prepare L raw of Inl e \<Rightarrow> create_sample_data | Inr d \<Rightarrow> d))"

section \<open>The filter, aggregate and render cycle: \<^verbatim>\<open>update_dashboard\<close>\<close>

text \<open>
  \<^verbatim>\<open>update_dashboard\<close> reads the global table \<^verbatim>\<open>df = load_data()\<close>; the model takes it
  as its first argument. The three selections are texts. What the callback hands to the
  rendering library is modelled by its content: the numbers a summary line prints (not
  their formatting to one decimal), the values and bin count of a histogram, the rows of a
  bar chart, the text of an annotation, the records of the table.
\<close>

subsection \<open>Filtering\<close>

text \<open>
  \<^verbatim>\<open>d[d[c] == v]\<close>: \<^verbatim>\<open>KeyError\<close> when the table has no column \<open>c\<close>, otherwise the rows
  whose cell at \<open>c\<close> equals \<open>v\<close>, in their order.
\<close>

definition select_equal :: "string \<Rightarrow> cell \<Rightarrow> frame \<Rightarrow> error + frame" where
  "select_equal c v d =
     (if c \<in> set (columns d) then Inr (d\<lparr>rows := filter (\<lambda>r. r c = v) (rows d)\<rparr>)
      else Inl (KeyError c))"

definition judge_filter :: "string \<Rightarrow> frame \<Rightarrow> error + frame" where
  "judge_filter selected_judge d =
     (if selected_judge \<noteq> ''all'' then select_equal ''Judge_Full_Name'' (Str selected_judge) d
      else Inr d)"

definition charge_filter :: "string \<Rightarrow> frame \<Rightarrow> error + frame" where
  "charge_filter selected_charge d =
     (if selected_charge \<noteq> ''all''
      then select_equal ''ChargeOffenseDescription'' (Str selected_charge) d
      else Inr d)"

definition sentence_filter :: "string \<Rightarrow> frame \<Rightarrow> error + frame" where
  "sentence_filter selected_sentence d =
     (if selected_sentence = ''with_sentence'' then select_equal ''Has_Sentence'' (Flag True) d
      else if selected_sentence = ''no_sentence'' then select_equal ''Has_Sentence'' (Flag False) d
      else Inr d)"

definition filtered_df :: "frame \<Rightarrow> string \<Rightarrow> string \<Rightarrow> string \<Rightarrow> error + frame" where
  "filtered_df df selected_judge selected_charge selected_sentence =
     and_then (judge_filter selected_judge df)
       (\<lambda>d. and_then (charge_filter selected_charge d) (sentence_filter selected_sentence))"

subsection \<open>Numbers of a column\<close>

text \<open>
  The numbers of column \<open>c\<close> in a list of rows, missing values left out (as pandas'
  \<^verbatim>\<open>mean\<close> and the comparison \<^verbatim>\<open>> 0\<close> leave them out). The columns read this way are the
  four durations, which hold numbers in every row of a prepared table (lemma
  \<open>load_data_prepared\<close>) and are columns of it (lemma \<open>load_data_columns\<close>); so the
  \<^verbatim>\<open>TypeError\<close> of a text compared with 0 and the \<^verbatim>\<open>KeyError\<close> of an absent duration
  column cannot occur and are not branches of the model.
\<close>

definition numbers :: "string \<Rightarrow> (string \<Rightarrow> cell) list \<Rightarrow> real list" where
  "numbers c rs =
     List.map_filter
       (\<lambda>r. case r c of Num x \<Rightarrow> Some x | Flag b \<Rightarrow> Some (if b then 1 else 0) | _ \<Rightarrow> None) rs"

text \<open>\<^verbatim>\<open>d[d[c] > 0][c]\<close>: the strictly positive numbers of the column.\<close>

definition positive_values :: "string \<Rightarrow> frame \<Rightarrow> real list" where
  "positive_values c d = filter (\<lambda>x. 0 < x) (numbers c (rows d))"

text \<open>\<^verbatim>\<open>mean()\<close>; it is called on lists that are not empty.\<close>

definition mean :: "real list \<Rightarrow> real" where
  "mean xs = sum_list xs / real (length xs)"

text \<open>
  Rounding as numpy does it: \<^verbatim>\<open>rint\<close> rounds to the nearest integer, a half to the
  even one; \<^verbatim>\<open>round(n)\<close> does so at the \<open>n\<close>-th decimal.
\<close>

definition rint :: "real \<Rightarrow> int" where
  "rint x =
     (let f = \<lfloor>x\<rfloor> in
      if x - of_int f < 1 / 2 then f
      else if 1 / 2 < x - of_int f then f + 1
      else if even f then f else f + 1)"

definition round_to :: "nat \<Rightarrow> real \<Rightarrow> real" where
  "round_to n x = of_int (rint (x * 10 ^ n)) / 10 ^ n"

subsection \<open>Summary statistics\<close>

datatype 'a shown = Shown 'a | Placeholder string

record summary =
  cases_in_view :: nat
  cases_with_sentences :: "(nat \<times> real) shown"
  average_jail :: "real shown"
  average_probation :: "real shown"

definition summary_stats :: "frame \<Rightarrow> summary" where
  "summary_stats f =
     \<lparr>cases_in_view = length (rows f),
      cases_with_sentences =
        (if length (rows f) > 0
         then Shown (length (filter (\<lambda>r. r ''Has_Sentence'' = Flag True) (rows f)),
                     real (length (filter (\<lambda>r. r ''Has_Sentence'' = Flag True) (rows f)))
                       / real (length (rows f)) * 100)
         else Placeholder ''No data''),
      average_jail =
        (if length (positive_values ''Jail_Days'' f) > 0
         then Shown (mean (positive_values ''Jail_Days'' f))
         else Placeholder ''No jail sentences''),
      average_probation =
        (if length (positive_values ''Probation_Days_Clean'' f) > 0
         then Shown (mean (positive_values ''Probation_Days_Clean'' f))
         else Placeholder ''No probation sentences'')\<rparr>"

subsection \<open>Figures\<close>

record group_row =
  group_key :: string
  mean_jail :: real
  mean_probation :: real
  mean_control :: real
  mean_service :: real
  case_count :: nat

datatype figure =
    Histogram "real list" nat
  | Annotation string
  | GroupedBars string "group_row list"
  | CountBars "(string \<times> nat) list"

text \<open>One of the four distributions: the histogram of the positive values, or the note.\<close>

definition distribution :: "string \<Rightarrow> nat \<Rightarrow> string \<Rightarrow> frame \<Rightarrow> figure" where
  "distribution c nbinsx note f =
     (if length (positive_values c f) > 0 then Histogram (positive_values c f) nbinsx
      else Annotation note)"

text \<open>
  The texts of a column, missing values left out (\<^verbatim>\<open>groupby\<close> and \<^verbatim>\<open>value_counts\<close> drop
  them). The two columns grouped on, the charge and the judge's name, hold texts in a
  prepared table.
\<close>

definition texts :: "string \<Rightarrow> (string \<Rightarrow> cell) list \<Rightarrow> string list" where
  "texts c rs = List.map_filter (\<lambda>r. case r c of Str s \<Rightarrow> Some s | _ \<Rightarrow> None) rs"

text \<open>
  \<^verbatim>\<open>groupby(c).agg({...}).round(1).reset_index()\<close>: one row for each text of column \<open>c\<close>,
  the groups in the order of their keys; the mean of each duration over the rows of the
  group, rounded to one decimal; and the \<^verbatim>\<open>count\<close> of \<^verbatim>\<open>CaseNumber\<close>, which is the number
  of rows of the group whose case number is not missing.
\<close>

definition aggregate :: "string \<Rightarrow> (string \<Rightarrow> cell) list \<Rightarrow> string \<Rightarrow> group_row" where
  "aggregate c rs k =
     (let g = filter (\<lambda>r. r c = Str k) rs in
      \<lparr>group_key = k,
       mean_jail = round_to 1 (mean (numbers ''Jail_Days'' g)),
       mean_probation = round_to 1 (mean (numbers ''Probation_Days_Clean'' g)),
       mean_control = round_to 1 (mean (numbers ''CommunityControl_Days'' g)),
       mean_service = round_to 1 (mean (numbers ''CommunityService_Hours'' g)),
       case_count = length (filter (\<lambda>r. r ''CaseNumber'' \<noteq> Null) g)\<rparr>)"

text \<open>
  \<^verbatim>\<open>sort_values(..., ascending=False)\<close>: by count, largest first. Rows with equal counts
  keep their order here; pandas' default sort promises no order among them.
\<close>

definition by_count_descending :: "('a \<Rightarrow> nat) \<Rightarrow> 'a list \<Rightarrow> 'a list" where
  "by_count_descending count xs = sort_key (\<lambda>x. - int (count x)) xs"

definition group_summary :: "string \<Rightarrow> frame \<Rightarrow> error + group_row list" where
  "group_summary c f =
     (if c \<notin> set (columns f) then Inl (KeyError c)
      else if ''CaseNumber'' \<notin> set (columns f) then Inl (KeyError ''CaseNumber'')
      else Inr (take 15 (by_count_descending case_count
                  (map (aggregate c (rows f)) (sort (remdups (texts c (rows f))))))))"

text \<open>
  \<^verbatim>\<open>value_counts()\<close>: each text of the column with the number of rows that hold it,
  largest count first, equal counts in the order of first appearance.
\<close>

definition value_counts :: "string \<Rightarrow> (string \<Rightarrow> cell) list \<Rightarrow> (string \<times> nat) list" where
  "value_counts c rs =
     by_count_descending snd
       (map (\<lambda>k. (k, length (filter (\<lambda>r. r c = Str k) rs))) (rev (remdups (rev (texts c rs)))))"

definition comparison :: "string \<Rightarrow> string \<Rightarrow> frame \<Rightarrow> error + figure" where
  "comparison selected_judge selected_charge f =
     (if selected_judge \<noteq> ''all'' \<and> length (rows f) > 0 then
        and_then (group_summary ''ChargeOffenseDescription'' f)
          (\<lambda>charge_summary. Inr (GroupedBars ''ChargeOffenseDescription'' charge_summary))
      else if selected_charge \<noteq> ''all'' \<and> length (rows f) > 0 then
        and_then (group_summary ''Judge_Full_Name'' f)
          (\<lambda>judge_summary. Inr (GroupedBars ''Judge_Full_Name'' judge_summary))
      else if length (rows f) > 0 then
        Inr (CountBars (take 20 (value_counts ''Judge_Full_Name'' (rows f))))
      else Inr (Annotation ''No data to display''))"

subsection \<open>Table\<close>

definition table_columns :: "string list" where
  "table_columns =
     [''Judge_Full_Name'', ''ChargeOffenseDescription'', ''Statute'', ''Jail_Days'',
      ''Probation_Days_Clean'', ''CommunityControl_Days'', ''CommunityService_Hours'',
      ''Race_Tier_1'', ''Has_Sentence'']"

definition rounded_columns :: "string list" where
  "rounded_columns =
     [''Jail_Days'', ''Probation_Days_Clean'', ''CommunityControl_Days'',
      ''CommunityService_Hours'']"

definition round_cell :: "string \<Rightarrow> cell \<Rightarrow> cell" where
  "round_cell c v =
     (case v of Num x \<Rightarrow> if c \<in> set rounded_columns then Num (round_to 0 x) else v | _ \<Rightarrow> v)"

definition table_data :: "frame \<Rightarrow> (string \<times> cell) list list" where
  "table_data f =
     (let available_columns = filter (\<lambda>c. c \<in> set (columns f)) table_columns in
      if available_columns \<noteq> [] \<and> length (rows f) > 0
      then map (\<lambda>r. map (\<lambda>c. (c, round_cell c (r c))) available_columns) (rows f)
      else [])"

subsection \<open>\<^verbatim>\<open>update_dashboard\<close>\<close>

record dashboard =
  summary_out :: summary
  jail_fig :: figure
  probation_fig :: figure
  cc_fig :: figure
  cs_fig :: figure
  comparison_fig :: figure
  table_out :: "(string \<times> cell) list list"

definition render :: "string \<Rightarrow> string \<Rightarrow> frame \<Rightarrow> error + dashboard" where
  "render selected_judge selected_charge f =
     and_then (comparison selected_judge selected_charge f)
       (\<lambda>cmp. Inr
          \<lparr>summary_out = summary_stats f,
           jail_fig = distribution ''Jail_Days'' 30 ''No jail sentences in filtered data'' f,
           probation_fig =
             distribution ''Probation_Days_Clean'' 30 ''No probation sentences in filtered data'' f,
           cc_fig =
             distribution ''CommunityControl_Days'' 20
               ''No community control sentences in filtered data'' f,
           cs_fig =
             distribution ''CommunityService_Hours'' 20
               ''No community service sentences in filtered data'' f,
           comparison_fig = cmp,
           table_out = table_data f\<rparr>)"

definition update_dashboard ::
  "frame \<Rightarrow> string \<Rightarrow> string \<Rightarrow> string \<Rightarrow> error + dashboard" where
  "update_dashboard df selected_judge selected_charge selected_sentence =
     and_then (filtered_df df selected_judge selected_charge selected_sentence)
       (render selected_judge selected_charge)"

section \<open>Notions used to state the properties\<close>

text \<open>
  The value each duration column gets in one row, as a function of the column labels \<open>C\<close>
  of the table and of the row \<open>r\<close> the value is computed from.
\<close>

definition jail_value :: "pandas \<Rightarrow> string set \<Rightarrow> (string \<Rightarrow> cell) \<Rightarrow> real" where
  "jail_value L C r =
     (if ''MaxCnfmnt_Days'' \<in> C then numeric_or_zero L (r ''MaxCnfmnt_Days'') else 0)"

definition probation_value :: "pandas \<Rightarrow> string set \<Rightarrow> (string \<Rightarrow> cell) \<Rightarrow> real" where
  "probation_value L C r =
     (if ''Probation_Days'' \<in> C then numeric_or_zero L (r ''Probation_Days'')
      else if ''Probation_Mths'' \<in> C then numeric_or_zero L (r ''Probation_Mths'') * 30
      else if ''Probation_Yrs'' \<in> C then numeric_or_zero L (r ''Probation_Yrs'') * 365
      else 0)"

definition control_value :: "pandas \<Rightarrow> string set \<Rightarrow> (string \<Rightarrow> cell) \<Rightarrow> real" where
  "control_value L C r =
     (if ''ComCntrl_Days'' \<in> C then numeric_or_zero L (r ''ComCntrl_Days'')
      else if ''ComCntrl_Mths'' \<in> C then numeric_or_zero L (r ''ComCntrl_Mths'') * 30
      else if ''ComCntrl_Yrs'' \<in> C then numeric_or_zero L (r ''ComCntrl_Yrs'') * 365
      else 0)"

definition service_value :: "pandas \<Rightarrow> string set \<Rightarrow> (string \<Rightarrow> cell) \<Rightarrow> real" where
  "service_value L C r =
     (if ''CommunityService'' \<in> C then numeric_or_zero L (r ''CommunityService'') else 0)"


text \<open>The middle initial as it enters the name: a missing one counts as the empty text.\<close>

definition middle_text :: "cell \<Rightarrow> string" where
  "middle_text v = (case v of Str m \<Rightarrow> m | _ \<Rightarrow> [])"

text \<open>
  What every row of a prepared table satisfies: the four durations are numbers, the flag
  says whether one of them is positive, the judge's name is a text that is not empty.
\<close>

definition prepared_row :: "(string \<Rightarrow> cell) \<Rightarrow> bool" where
  "prepared_row r =
     (\<exists>j p c s n. r ''Jail_Days'' = Num j \<and> r ''Probation_Days_Clean'' = Num p \<and>
        r ''CommunityControl_Days'' = Num c \<and> r ''CommunityService_Hours'' = Num s \<and>
        r ''Has_Sentence'' = Flag (0 < j \<or> 0 < p \<or> 0 < c \<or> 0 < s) \<and>
        r ''Judge_Full_Name'' = Str n \<and> n \<noteq> [])"

subsection \<open>Example inputs\<close>

text \<open>
  A library on which the model can be run: no date converts, every number prints as
  \<^verbatim>\<open>0\<close>, no text reads as a number. The example tables hold numbers, texts and missing
  values only, so the three functions decide nothing in them beyond that.
\<close>

definition plain_pandas :: pandas where
  "plain_pandas = \<lparr>to_datetime = (\<lambda>vs. None), str_of_num = (\<lambda>x. ''0''), parse_num = (\<lambda>s. None)\<rparr>"

definition example_durations :: frame where
  "example_durations =
     \<lparr>columns = [''MaxCnfmnt_Days'', ''Probation_Days'', ''Probation_Mths'', ''Judge''],
      rows = [row_of [(''MaxCnfmnt_Days'', Num 0), (''Probation_Days'', Num 0),
                      (''Probation_Mths'', Num 12), (''Judge'', Str '' Smith '')],
              row_of [(''MaxCnfmnt_Days'', Num 1), (''Probation_Days'', Null),
                      (''Probation_Mths'', Num 6), (''Judge'', Null)],
              row_of [(''MaxCnfmnt_Days'', Num (- 5)), (''Probation_Days'', Num 90),
                      (''Probation_Mths'', Num 1), (''Judge'', Str ''nan'')]]\<rparr>"



definition example_jail :: frame where
  "example_jail =
     \<lparr>columns = [''MaxCnfmnt_Days'', ''Probation_Days''],
      rows = [row_of [(''MaxCnfmnt_Days'', Num 0), (''Probation_Days'', Num 30)],
              row_of [(''MaxCnfmnt_Days'', Num 0), (''Probation_Days'', Num 0)],
              row_of [(''MaxCnfmnt_Days'', Num 10), (''Probation_Days'', Num 60)]]\<rparr>"

definition example_cases :: frame where
  "example_cases =
     \<lparr>columns = [''CaseNumber'', ''Judge'', ''ChargeOffenseDescription'', ''MaxCnfmnt_Days''],
      rows = [row_of [(''CaseNumber'', Null), (''Judge'', Str ''Smith''),
                      (''ChargeOffenseDescription'', Str ''THEFT''), (''MaxCnfmnt_Days'', Num 10)],
              row_of [(''CaseNumber'', Str ''C2''), (''Judge'', Str ''Smith''),
                      (''ChargeOffenseDescription'', Str ''DUI''), (''MaxCnfmnt_Days'', Num 20)]]\<rparr>"

section \<open>Properties of data preparation\<close>

subsection \<open>Assignments keep the shape of the table\<close>

lemma length_rows_assign [simp]: "length (rows (assign c f d)) = length (rows d)"
  by (simp add: assign_def)

lemma set_columns_assign [simp]: "set (columns (assign c f d)) = insert c (set (columns d))"
  by (auto simp: assign_def)

lemma nth_rows_assign [simp]:
  "i < length (rows d) \<Longrightarrow> rows (assign c f d) ! i = (rows d ! i)(c := f (rows d ! i))"
  by (simp add: assign_def)

lemma length_rows_assign_values [simp]:
  "length vs = length (rows d) \<Longrightarrow> length (rows (assign_values c vs d)) = length (rows d)"
  by (simp add: assign_values_def)

lemma set_columns_assign_values [simp]:
  "set (columns (assign_values c vs d)) = insert c (set (columns d))"
  by (auto simp: assign_values_def)

lemma nth_rows_assign_values [simp]:
  "length vs = length (rows d) \<Longrightarrow> i < length (rows d) \<Longrightarrow>
   rows (assign_values c vs d) ! i = (rows d ! i)(c := vs ! i)"
  by (simp add: assign_values_def)

lemma convert_date_shape [simp]:
  "length (rows (convert_date L c d)) = length (rows d)"
  "set (columns (convert_date L c d)) = set (columns d)"
  by (auto simp: convert_date_def split: option.splits)

lemma convert_date_other:
  "c' \<noteq> c \<Longrightarrow> i < length (rows d) \<Longrightarrow> (rows (convert_date L c d) ! i) c' = (rows d ! i) c'"
  by (auto simp: convert_date_def split: option.splits)

lemma clean_text_column_shape [simp]:
  "length (rows (clean_text_column L c d)) = length (rows d)"
  "set (columns (clean_text_column L c d)) = set (columns d)"
  by (auto simp: clean_text_column_def)

lemma clean_text_column_other:
  "c' \<noteq> c \<Longrightarrow> i < length (rows d) \<Longrightarrow>
   (rows (clean_text_column L c d) ! i) c' = (rows d ! i) c'"
  by (auto simp: clean_text_column_def)

lemma clean_text_column_same:
  "c \<in> set (columns d) \<Longrightarrow> i < length (rows d) \<Longrightarrow>
   (rows (clean_text_column L c d) ! i) c = Str (strip (astype_str L ((rows d ! i) c)))"
  by (auto simp: clean_text_column_def)

lemma foldl_convert_shape:
  "length (rows (foldl (\<lambda>d c. convert_date L c d) d cs)) = length (rows d) \<and>
   set (columns (foldl (\<lambda>d c. convert_date L c d) d cs)) = set (columns d)"
  by (induction cs arbitrary: d) simp_all

lemma foldl_convert_other:
  "c' \<notin> set cs \<Longrightarrow> i < length (rows d) \<Longrightarrow>
   (rows (foldl (\<lambda>d c. convert_date L c d) d cs) ! i) c' = (rows d ! i) c'"
  by (induction cs arbitrary: d) (simp_all add: convert_date_other)

lemma foldl_clean_shape:
  "length (rows (foldl (\<lambda>d c. clean_text_column L c d) d cs)) = length (rows d) \<and>
   set (columns (foldl (\<lambda>d c. clean_text_column L c d) d cs)) = set (columns d)"
  by (induction cs arbitrary: d) simp_all

lemma foldl_clean_other:
  "c' \<notin> set cs \<Longrightarrow> i < length (rows d) \<Longrightarrow>
   (rows (foldl (\<lambda>d c. clean_text_column L c d) d cs) ! i) c' = (rows d ! i) c'"
  by (induction cs arbitrary: d) (simp_all add: clean_text_column_other)

lemma foldl_clean_same:
  "distinct cs \<Longrightarrow> c' \<in> set cs \<Longrightarrow> c' \<in> set (columns d) \<Longrightarrow> i < length (rows d) \<Longrightarrow>
   (rows (foldl (\<lambda>d c. clean_text_column L c d) d cs) ! i) c' =
     Str (strip (astype_str L ((rows d ! i) c')))"
proof (induction cs arbitrary: d)
  case Nil
  then show ?case by simp
next
  case (Cons c cs)
  show ?case
  proof (cases "c = c'")
    case True
    with Cons.prems have "c' \<notin> set cs" by simp
    then show ?thesis
      using Cons.prems True by (simp add: foldl_clean_other clean_text_column_same)
  next
    case False
    then show ?thesis
      using Cons.prems Cons.IH [of "clean_text_column L c d"]
      by (simp add: clean_text_column_other)
  qed
qed

lemma cleaned_shape:
  "length (rows (cleaned L raw)) = length (rows raw)"
  "set (columns (cleaned L raw)) = set (columns (relabelled raw))"
  by (simp_all add: cleaned_def clean_text_def convert_dates_def foldl_clean_shape
        foldl_convert_shape relabelled_def strip_bom_columns_def)

lemma length_rows_relabelled [simp]: "length (rows (relabelled raw)) = length (rows raw)"
  by (simp add: relabelled_def strip_bom_columns_def)

lemma cleaned_other:
  assumes "c \<notin> set text_columns" "c \<notin> set date_columns" "i < length (rows raw)"
  shows "(rows (cleaned L raw) ! i) c = (rows (relabelled raw) ! i) c"
  using assms
  by (simp add: cleaned_def clean_text_def convert_dates_def foldl_clean_other
        foldl_convert_other foldl_convert_shape)

lemma cleaned_text:
  assumes "c \<in> set text_columns" "c \<in> set (columns (relabelled raw))" "i < length (rows raw)"
  shows "(rows (cleaned L raw) ! i) c = Str (strip (astype_str L ((rows (relabelled raw) ! i) c)))"
proof -
  have d: "distinct text_columns" by (simp add: text_columns_def)
  have nd: "c \<notin> set date_columns"
    using assms(1) by (auto simp: text_columns_def date_columns_def)
  show ?thesis
    using assms nd
    by (simp add: cleaned_def clean_text_def convert_dates_def foldl_clean_same [OF d]
          foldl_convert_other foldl_convert_shape)
qed

lemma jail_days_shape [simp]:
  "length (rows (jail_days L d)) = length (rows d)"
  "set (columns (jail_days L d)) = insert ''Jail_Days'' (set (columns d))"
  by (simp_all add: jail_days_def)

lemma probation_days_shape [simp]:
  "length (rows (probation_days L d)) = length (rows d)"
  "set (columns (probation_days L d)) = insert ''Probation_Days_Clean'' (set (columns d))"
  by (simp_all add: probation_days_def)

lemma community_control_days_shape [simp]:
  "length (rows (community_control_days L d)) = length (rows d)"
  "set (columns (community_control_days L d)) = insert ''CommunityControl_Days'' (set (columns d))"
  by (simp_all add: community_control_days_def)

lemma community_service_hours_shape [simp]:
  "length (rows (community_service_hours L d)) = length (rows d)"
  "set (columns (community_service_hours L d)) = insert ''CommunityService_Hours'' (set (columns d))"
  by (simp_all add: community_service_hours_def)

lemma jail_days_nth:
  "i < length (rows d) \<Longrightarrow>
   rows (jail_days L d) ! i =
     (rows d ! i)(''Jail_Days'' :=
        Num (if ''MaxCnfmnt_Days'' \<in> set (columns d)
             then numeric_or_zero L ((rows d ! i) ''MaxCnfmnt_Days'') else 0))"
  by (simp add: jail_days_def)

lemma probation_days_nth:
  "i < length (rows d) \<Longrightarrow>
   rows (probation_days L d) ! i =
     (rows d ! i)(''Probation_Days_Clean'' :=
        Num (if ''Probation_Days'' \<in> set (columns d)
             then numeric_or_zero L ((rows d ! i) ''Probation_Days'')
             else if ''Probation_Mths'' \<in> set (columns d)
             then numeric_or_zero L ((rows d ! i) ''Probation_Mths'') * 30
             else if ''Probation_Yrs'' \<in> set (columns d)
             then numeric_or_zero L ((rows d ! i) ''Probation_Yrs'') * 365
             else 0))"
  by (simp add: probation_days_def)

lemma community_control_days_nth:
  "i < length (rows d) \<Longrightarrow>
   rows (community_control_days L d) ! i =
     (rows d ! i)(''CommunityControl_Days'' :=
        Num (if ''ComCntrl_Days'' \<in> set (columns d)
             then numeric_or_zero L ((rows d ! i) ''ComCntrl_Days'')
             else if ''ComCntrl_Mths'' \<in> set (columns d)
             then numeric_or_zero L ((rows d ! i) ''ComCntrl_Mths'') * 30
             else if ''ComCntrl_Yrs'' \<in> set (columns d)
             then numeric_or_zero L ((rows d ! i) ''ComCntrl_Yrs'') * 365
             else 0))"
  by (simp add: community_control_days_def)

lemma community_service_hours_nth:
  "i < length (rows d) \<Longrightarrow>
   rows (community_service_hours L d) ! i =
     (rows d ! i)(''CommunityService_Hours'' :=
        Num (if ''CommunityService'' \<in> set (columns d)
             then numeric_or_zero L ((rows d ! i) ''CommunityService'') else 0))"
  by (simp add: community_service_hours_def)

lemma durations_shape [simp]:
  "length (rows (durations L d)) = length (rows d)"
  "set (columns (durations L d)) =
     {''Jail_Days'', ''Probation_Days_Clean'', ''CommunityControl_Days'',
      ''CommunityService_Hours''} \<union> set (columns d)"
  by (auto simp: durations_def)

lemma durations_nth:
  assumes "i < length (rows d)"
  shows "rows (durations L d) ! i =
     (rows d ! i)
       (''Jail_Days'' := Num (jail_value L (set (columns d)) (rows d ! i)),
        ''Probation_Days_Clean'' := Num (probation_value L (set (columns d)) (rows d ! i)),
        ''CommunityControl_Days'' := Num (control_value L (set (columns d)) (rows d ! i)),
        ''CommunityService_Hours'' := Num (service_value L (set (columns d)) (rows d ! i)))"
  using assms
  by (simp add: durations_def jail_days_nth probation_days_nth community_control_days_nth
        community_service_hours_nth jail_value_def probation_value_def control_value_def
        service_value_def)

lemma has_sentence_shape [simp]:
  "length (rows (has_sentence d)) = length (rows d)"
  "set (columns (has_sentence d)) = insert ''Has_Sentence'' (set (columns d))"
  by (simp_all add: has_sentence_def)

lemma sentenced_nth:
  assumes "i < length (rows d)"
  shows "rows (has_sentence (durations L d)) ! i =
     (rows d ! i)
       (''Jail_Days'' := Num (jail_value L (set (columns d)) (rows d ! i)),
        ''Probation_Days_Clean'' := Num (probation_value L (set (columns d)) (rows d ! i)),
        ''CommunityControl_Days'' := Num (control_value L (set (columns d)) (rows d ! i)),
        ''CommunityService_Hours'' := Num (service_value L (set (columns d)) (rows d ! i)),
        ''Has_Sentence'' :=
           Flag (0 < jail_value L (set (columns d)) (rows d ! i) \<or>
                 0 < probation_value L (set (columns d)) (rows d ! i) \<or>
                 0 < control_value L (set (columns d)) (rows d ! i) \<or>
                 0 < service_value L (set (columns d)) (rows d ! i)))"
  using assms by (simp add: has_sentence_def durations_nth)

lemma and_then_simps [simp]:
  "and_then (Inl e) f = Inl e"
  "and_then (Inr v) f = f v"
  by (simp_all add: and_then_def)

lemma and_then_Inr_iff:
  "and_then x f = Inr y \<longleftrightarrow> (\<exists>v. x = Inr v \<and> f v = Inr y)"
  by (cases x) simp_all

lemma collect_Inr:
  "collect xs = Inr vs \<Longrightarrow> length vs = length xs \<and> (\<forall>i<length xs. xs ! i = Inr (vs ! i))"
proof (induction xs arbitrary: vs)
  case Nil
  then show ?case by simp
next
  case (Cons x xs)
  from Cons.prems obtain v ws where x: "x = Inr v" and ws: "collect xs = Inr ws"
    and vs: "vs = v # ws"
    by (auto simp: and_then_Inr_iff)
  from Cons.IH [OF ws] show ?case
    using x vs by (auto simp: nth_Cons split: nat.splits)
qed

lemma collect_all_Inr:
  "(\<forall>x\<in>set xs. \<exists>v. x = Inr v) \<Longrightarrow> \<exists>vs. collect xs = Inr vs"
  by (induction xs) auto

lemma collect_Inl:
  "collect xs = Inl e \<Longrightarrow> Inl e \<in> set xs"
proof (induction xs)
  case Nil
  then show ?case by simp
next
  case (Cons x xs)
  then show ?case
    by (cases x; cases "collect xs") auto
qed

lemma name_of_parts_text:
  assumes "r ''Judge_First_Name'' = Str f" "r ''Judge_Last_Name'' = Str l"
  shows "name_of_parts r =
     (case r ''Judge_Middle_Intial'' of
        Str m \<Rightarrow> Inr (Str (f @ '' '' @ m @ '' '' @ l))
      | Null \<Rightarrow> Inr (Str (f @ '' '' @ '' '' @ l))
      | _ \<Rightarrow> Inl TypeError)"
  using assms by (simp add: name_of_parts_def fillna_empty_def split: cell.splits)

lemma judge_full_name_parts:
  assumes ok: "judge_full_name d = Inr d'"
    and parts: "list_all (\<lambda>c. c \<in> set (columns d)) name_part_columns"
  shows "length (rows d') = length (rows d)"
    and "set (columns d') = insert ''Judge_Full_Name'' (set (columns d))"
    and "\<forall>i<length (rows d). \<exists>v. name_of_parts (rows d ! i) = Inr v \<and>
           rows d' ! i = (rows d ! i)(''Judge_Full_Name'' := replace_unknown (str_strip v))"
proof -
  from ok parts obtain vs where vs: "collect (map name_of_parts (rows d)) = Inr vs"
    and d': "d' = assign ''Judge_Full_Name'' (\<lambda>r. replace_unknown (r ''Judge_Full_Name''))
                 (assign ''Judge_Full_Name'' (\<lambda>r. str_strip (r ''Judge_Full_Name''))
                    (assign_values ''Judge_Full_Name'' vs d))"
    by (auto simp: judge_full_name_def and_then_Inr_iff)
  from collect_Inr [OF vs] have len: "length vs = length (rows d)"
    and nth: "\<forall>i<length (rows d). name_of_parts (rows d ! i) = Inr (vs ! i)"
    by simp_all
  show "length (rows d') = length (rows d)" using len by (simp add: d')
  show "set (columns d') = insert ''Judge_Full_Name'' (set (columns d))" by (simp add: d')
  show "\<forall>i<length (rows d). \<exists>v. name_of_parts (rows d ! i) = Inr v \<and>
           rows d' ! i = (rows d ! i)(''Judge_Full_Name'' := replace_unknown (str_strip v))"
    using len nth by (simp add: d')
qed

lemma judge_full_name_other:
  assumes parts: "\<not> list_all (\<lambda>c. c \<in> set (columns d)) name_part_columns"
  shows "judge_full_name d =
     Inr (assign ''Judge_Full_Name''
            (\<lambda>r. replace_unknown (if ''Judge'' \<in> set (columns d) then r ''Judge''
                                   else Str ''Unknown'')) d)"
  using parts by (auto simp: judge_full_name_def assign_def)

lemma judge_full_name_rows:
  assumes ok: "judge_full_name s = Inr d"
  shows "length (rows d) = length (rows s)"
    and "set (columns d) = insert ''Judge_Full_Name'' (set (columns s))"
    and "i < length (rows s) \<Longrightarrow> \<exists>x. rows d ! i = (rows s ! i)(''Judge_Full_Name'' := x)"
proof -
  show "length (rows d) = length (rows s)"
    using ok judge_full_name_parts(1) [OF ok] judge_full_name_other [of s]
    by (cases "list_all (\<lambda>c. c \<in> set (columns s)) name_part_columns") auto
  show "set (columns d) = insert ''Judge_Full_Name'' (set (columns s))"
    using ok judge_full_name_parts(2) [OF ok] judge_full_name_other [of s]
    by (cases "list_all (\<lambda>c. c \<in> set (columns s)) name_part_columns") auto
  show "i < length (rows s) \<Longrightarrow> \<exists>x. rows d ! i = (rows s ! i)(''Judge_Full_Name'' := x)"
    using ok judge_full_name_parts(3) [OF ok] judge_full_name_other [of s]
    by (cases "list_all (\<lambda>c. c \<in> set (columns s)) name_part_columns") auto
qed

lemma prepare_length:
  "prepare L raw = Inr d \<Longrightarrow> length (rows d) = length (rows raw)"
  by (simp add: prepare_def judge_full_name_rows(1) cleaned_shape)

lemma prepare_columns:
  "prepare L raw = Inr d \<Longrightarrow>
   set (columns d) =
     {''Jail_Days'', ''Probation_Days_Clean'', ''CommunityControl_Days'',
      ''CommunityService_Hours'', ''Has_Sentence'', ''Judge_Full_Name''}
     \<union> set (columns (relabelled raw))"
  by (auto simp: prepare_def judge_full_name_rows(2) cleaned_shape)

lemma prepare_fields:
  assumes ok: "prepare L raw = Inr d" and i: "i < length (rows raw)"
  defines "C \<equiv> set (columns (relabelled raw))" and "c \<equiv> rows (cleaned L raw) ! i"
  shows "(rows d ! i) ''Jail_Days'' = Num (jail_value L C c)"
    and "(rows d ! i) ''Probation_Days_Clean'' = Num (probation_value L C c)"
    and "(rows d ! i) ''CommunityControl_Days'' = Num (control_value L C c)"
    and "(rows d ! i) ''CommunityService_Hours'' = Num (service_value L C c)"
    and "(rows d ! i) ''Has_Sentence'' =
           Flag (0 < jail_value L C c \<or> 0 < probation_value L C c \<or>
                 0 < control_value L C c \<or> 0 < service_value L C c)"
proof -
  let ?s = "has_sentence (durations L (cleaned L raw))"
  have j: "judge_full_name ?s = Inr d" using ok by (simp add: prepare_def)
  have len: "i < length (rows ?s)" using i by (simp add: cleaned_shape)
  from judge_full_name_rows(3) [OF j len] obtain x
    where r: "rows d ! i = (rows ?s ! i)(''Judge_Full_Name'' := x)" ..
  have s: "rows ?s ! i =
     c(''Jail_Days'' := Num (jail_value L C c),
       ''Probation_Days_Clean'' := Num (probation_value L C c),
       ''CommunityControl_Days'' := Num (control_value L C c),
       ''CommunityService_Hours'' := Num (service_value L C c),
       ''Has_Sentence'' :=
          Flag (0 < jail_value L C c \<or> 0 < probation_value L C c \<or>
                0 < control_value L C c \<or> 0 < service_value L C c))"
    using i by (simp add: sentenced_nth cleaned_shape C_def c_def)
  show "(rows d ! i) ''Jail_Days'' = Num (jail_value L C c)" by (simp add: r s)
  show "(rows d ! i) ''Probation_Days_Clean'' = Num (probation_value L C c)" by (simp add: r s)
  show "(rows d ! i) ''CommunityControl_Days'' = Num (control_value L C c)" by (simp add: r s)
  show "(rows d ! i) ''CommunityService_Hours'' = Num (service_value L C c)" by (simp add: r s)
  show "(rows d ! i) ''Has_Sentence'' =
           Flag (0 < jail_value L C c \<or> 0 < probation_value L C c \<or>
                 0 < control_value L C c \<or> 0 < service_value L C c)"
    by (simp add: r s)
qed

lemma prepare_name:
  assumes ok: "prepare L raw = Inr d" and i: "i < length (rows raw)"
  defines "C \<equiv> set (columns (relabelled raw))" and "b \<equiv> rows (relabelled raw) ! i"
  shows "(rows d ! i) ''Judge_Full_Name'' =
     replace_unknown
       (if ''Judge_First_Name'' \<in> C \<and> ''Judge_Middle_Intial'' \<in> C \<and> ''Judge_Last_Name'' \<in> C
        then Str (strip (strip (astype_str L (b ''Judge_First_Name'')) @ '' '' @
                         middle_text (b ''Judge_Middle_Intial'') @ '' '' @
                         strip (astype_str L (b ''Judge_Last_Name''))))
        else if ''Judge'' \<in> C then Str (strip (astype_str L (b ''Judge'')))
        else Str ''Unknown'')"
    and "''Judge_First_Name'' \<in> C \<and> ''Judge_Middle_Intial'' \<in> C \<and> ''Judge_Last_Name'' \<in> C
         \<Longrightarrow> (\<exists>m. b ''Judge_Middle_Intial'' = Str m) \<or> b ''Judge_Middle_Intial'' = Null"
proof -
  let ?s = "has_sentence (durations L (cleaned L raw))"
  let ?c = "rows (cleaned L raw) ! i"
  have j: "judge_full_name ?s = Inr d" using ok by (simp add: prepare_def)
  have len: "i < length (rows ?s)" using i by (simp add: cleaned_shape)
  have parts: "list_all (\<lambda>c. c \<in> set (columns ?s)) name_part_columns \<longleftrightarrow>
     ''Judge_First_Name'' \<in> C \<and> ''Judge_Middle_Intial'' \<in> C \<and> ''Judge_Last_Name'' \<in> C"
    by (simp add: name_part_columns_def cleaned_shape C_def)
  have judge: "''Judge'' \<in> set (columns ?s) \<longleftrightarrow> ''Judge'' \<in> C"
    by (simp add: cleaned_shape C_def)
  have srow: "(rows ?s ! i) ''Judge_First_Name'' = ?c ''Judge_First_Name''"
    "(rows ?s ! i) ''Judge_Middle_Intial'' = ?c ''Judge_Middle_Intial''"
    "(rows ?s ! i) ''Judge_Last_Name'' = ?c ''Judge_Last_Name''"
    "(rows ?s ! i) ''Judge'' = ?c ''Judge''"
    using i by (simp_all add: sentenced_nth cleaned_shape)
  have mid: "?c ''Judge_Middle_Intial'' = b ''Judge_Middle_Intial''"
    using i by (simp add: cleaned_other text_columns_def date_columns_def b_def)
  have cl: "\<And>k. k \<in> set text_columns \<Longrightarrow> k \<in> C \<Longrightarrow> ?c k = Str (strip (astype_str L (b k)))"
    using i by (simp add: cleaned_text C_def b_def)
  show "(rows d ! i) ''Judge_Full_Name'' =
     replace_unknown
       (if ''Judge_First_Name'' \<in> C \<and> ''Judge_Middle_Intial'' \<in> C \<and> ''Judge_Last_Name'' \<in> C
        then Str (strip (strip (astype_str L (b ''Judge_First_Name'')) @ '' '' @
                         middle_text (b ''Judge_Middle_Intial'') @ '' '' @
                         strip (astype_str L (b ''Judge_Last_Name''))))
        else if ''Judge'' \<in> C then Str (strip (astype_str L (b ''Judge'')))
        else Str ''Unknown'')"
  proof (cases "''Judge_First_Name'' \<in> C \<and> ''Judge_Middle_Intial'' \<in> C \<and> ''Judge_Last_Name'' \<in> C")
    case True
    then have p: "list_all (\<lambda>c. c \<in> set (columns ?s)) name_part_columns"
      using parts by blast
    from judge_full_name_parts(3) [OF j p] len obtain v
      where v: "name_of_parts (rows ?s ! i) = Inr v"
        and r: "rows d ! i = (rows ?s ! i)(''Judge_Full_Name'' := replace_unknown (str_strip v))"
      by blast
    have f: "(rows ?s ! i) ''Judge_First_Name'' = Str (strip (astype_str L (b ''Judge_First_Name'')))"
      using True by (simp add: srow cl text_columns_def)
    have l: "(rows ?s ! i) ''Judge_Last_Name'' = Str (strip (astype_str L (b ''Judge_Last_Name'')))"
      using True by (simp add: srow cl text_columns_def)
    from v name_of_parts_text [OF f l]
    have "v = Str (strip (astype_str L (b ''Judge_First_Name'')) @ '' '' @
                   middle_text (b ''Judge_Middle_Intial'') @ '' '' @
                   strip (astype_str L (b ''Judge_Last_Name'')))"
      by (auto simp: srow mid middle_text_def split: cell.splits)
    then show ?thesis using True by (simp add: r)
  next
    case False
    then have p: "\<not> list_all (\<lambda>c. c \<in> set (columns ?s)) name_part_columns"
      using parts by blast
    have "judge_full_name ?s =
        Inr (assign ''Judge_Full_Name''
               (\<lambda>r. replace_unknown (if ''Judge'' \<in> C then r ''Judge'' else Str ''Unknown'')) ?s)"
      using judge_full_name_other [OF p] unfolding judge .
    with j have "d = assign ''Judge_Full_Name''
               (\<lambda>r. replace_unknown (if ''Judge'' \<in> C then r ''Judge'' else Str ''Unknown'')) ?s"
      by simp
    then have "rows d ! i = (rows ?s ! i)(''Judge_Full_Name'' :=
        replace_unknown (if ''Judge'' \<in> C then (rows ?s ! i) ''Judge'' else Str ''Unknown''))"
      using len nth_rows_assign [OF len] by simp
    then have "(rows d ! i) ''Judge_Full_Name'' =
        replace_unknown (if ''Judge'' \<in> C then ?c ''Judge'' else Str ''Unknown'')"
      by (simp add: srow)
    then show ?thesis using False by (auto simp: cl text_columns_def)
  qed
  show "(\<exists>m. b ''Judge_Middle_Intial'' = Str m) \<or> b ''Judge_Middle_Intial'' = Null"
    if T: "''Judge_First_Name'' \<in> C \<and> ''Judge_Middle_Intial'' \<in> C \<and> ''Judge_Last_Name'' \<in> C"
  proof -
    from T have p: "list_all (\<lambda>c. c \<in> set (columns ?s)) name_part_columns"
      using parts by blast
    from judge_full_name_parts(3) [OF j p] len obtain v
      where v: "name_of_parts (rows ?s ! i) = Inr v" by blast
    have f: "(rows ?s ! i) ''Judge_First_Name'' = Str (strip (astype_str L (b ''Judge_First_Name'')))"
      using T by (simp add: srow cl text_columns_def)
    have l: "(rows ?s ! i) ''Judge_Last_Name'' = Str (strip (astype_str L (b ''Judge_Last_Name'')))"
      using T by (simp add: srow cl text_columns_def)
    from v name_of_parts_text [OF f l] show ?thesis
      by (auto simp: srow mid split: cell.splits)
  qed
qed

lemma sample_row_cells:
  "sample_row cn j ch st sd ra g jd pd cd cs dd hs ''Jail_Days'' = Num jd"
  "sample_row cn j ch st sd ra g jd pd cd cs dd hs ''Probation_Days_Clean'' = Num pd"
  "sample_row cn j ch st sd ra g jd pd cd cs dd hs ''CommunityControl_Days'' = Num cd"
  "sample_row cn j ch st sd ra g jd pd cd cs dd hs ''CommunityService_Hours'' = Num cs"
  "sample_row cn j ch st sd ra g jd pd cd cs dd hs ''Has_Sentence'' = Flag hs"
  "sample_row cn j ch st sd ra g jd pd cd cs dd hs ''Judge_Full_Name'' = Str j"
  "sample_row cn j ch st sd ra g jd pd cd cs dd hs ''ChargeOffenseDescription'' = Str ch"
  "sample_row cn j ch st sd ra g jd pd cd cs dd hs ''CaseNumber'' = Str cn"
  by (simp_all add: sample_row_def row_of_def)

lemma sample_prepared: "r \<in> set (rows create_sample_data) \<Longrightarrow> prepared_row r"
  by (auto simp: create_sample_data_def prepared_row_def sample_row_cells)

lemma replace_unknown_text:
  "\<exists>n. replace_unknown (Str s) = Str n \<and> n \<noteq> []"
  by (simp add: replace_unknown_def)

lemma prepare_prepared:
  assumes ok: "prepare L raw = Inr d" and r: "r \<in> set (rows d)"
  shows "prepared_row r"
proof -
  from r obtain i where i: "i < length (rows d)" and ri: "r = rows d ! i"
    by (auto simp: in_set_conv_nth)
  from i have i': "i < length (rows raw)" using prepare_length [OF ok] by simp
  have "\<exists>s. (rows d ! i) ''Judge_Full_Name'' = replace_unknown (Str s)"
    unfolding prepare_name(1) [OF ok i'] by (auto split: if_splits)
  then obtain n where "(rows d ! i) ''Judge_Full_Name'' = Str n" "n \<noteq> []"
    using replace_unknown_text by metis
  then show ?thesis
    unfolding prepared_row_def ri
    using prepare_fields [OF ok i'] by blast
qed

lemma load_data_cases:
  "load_data L src = create_sample_data \<or>
   (\<exists>raw d. src = Csv raw \<and> rows raw \<noteq> [] \<and> prepare L raw = Inr d \<and> load_data L src = d)"
  by (auto simp: load_data_def split: source.splits sum.splits)

lemma load_data_prepared:
  "r \<in> set (rows (load_data L src)) \<Longrightarrow> prepared_row r"
  using load_data_cases [of L src] sample_prepared prepare_prepared by metis


lemmas eval_defs = load_data_def prepare_def cleaned_def relabelled_def strip_bom_columns_def
  convert_dates_def convert_date_def date_columns_def clean_text_def clean_text_column_def
  text_columns_def durations_def jail_days_def probation_days_def community_control_days_def
  community_service_hours_def has_sentence_def judge_full_name_def name_part_columns_def
  name_of_parts_def assign_def assign_values_def column_def row_of_def numeric_or_zero_def
  fillna0_def replace_unknown_def strip_def is_space_def bom_def fillna_empty_def
  plain_pandas_def

lemma example_durations_prepared: "map (\<lambda>r. (r ''Jail_Days'', r ''Probation_Days_Clean'', r ''CommunityControl_Days'',
     r ''CommunityService_Hours'', r ''Has_Sentence'', r ''Judge_Full_Name''))
     (rows (load_data plain_pandas (Csv example_durations))) =
   [(Num 0, Num 0, Num 0, Num 0, Flag False, Str ''Smith''),
    (Num 1, Num 0, Num 0, Num 0, Flag True, Str ''Unknown''),
    (Num (- 5), Num 90, Num 0, Num 0, Flag True, Str ''Unknown'')]"
  by (simp add: eval_defs example_durations_def)





lemma rows_example_durations:
  "length (rows (load_data plain_pandas (Csv example_durations))) = 3"
  using arg_cong [OF example_durations_prepared, of length] by simp



section \<open>The claims about data preparation\<close>

text \<open>
  Claim C1. In every row of every table that \<^verbatim>\<open>load_data\<close> returns (prepared from the
  source file or the fixture), the four derived durations are numbers and the flag
  \<^verbatim>\<open>Has_Sentence\<close> is true if and only if at least one of them is strictly greater than
  zero. So a row with four zeros has the flag false, and a row with a single 1 has it true.
\<close>

theorem has_sentence_iff_positive:
  assumes "r \<in> set (rows (load_data L src))"
  shows "\<exists>j p c s. r ''Jail_Days'' = Num j \<and> r ''Probation_Days_Clean'' = Num p \<and>
           r ''CommunityControl_Days'' = Num c \<and> r ''CommunityService_Hours'' = Num s \<and>
           r ''Has_Sentence'' = Flag (0 < j \<or> 0 < p \<or> 0 < c \<or> 0 < s)"
  using load_data_prepared [OF assms] unfolding prepared_row_def by blast

theorem has_sentence_iff_positive_witness:
  "rows (load_data plain_pandas (Csv example_durations)) ! 0
     \<in> set (rows (load_data plain_pandas (Csv example_durations))) \<and>
   rows (load_data plain_pandas (Csv example_durations)) ! 1
     \<in> set (rows (load_data plain_pandas (Csv example_durations))) \<and>
   (rows (load_data plain_pandas (Csv example_durations)) ! 0) ''Has_Sentence'' = Flag False \<and>
   (rows (load_data plain_pandas (Csv example_durations)) ! 1) ''Has_Sentence'' = Flag True"
proof -
  let ?d = "load_data plain_pandas (Csv example_durations)"
  have m0: "rows ?d ! 0 \<in> set (rows ?d)" and m1: "rows ?d ! 1 \<in> set (rows ?d)"
    by (simp_all add: rows_example_durations)
  have c0: "(rows ?d ! 0) ''Jail_Days'' = Num 0" "(rows ?d ! 0) ''Probation_Days_Clean'' = Num 0"
    "(rows ?d ! 0) ''CommunityControl_Days'' = Num 0"
    "(rows ?d ! 0) ''CommunityService_Hours'' = Num 0"
    using arg_cong [OF example_durations_prepared, of "\<lambda>xs. xs ! 0"]
    by (simp_all add: rows_example_durations)
  have c1: "(rows ?d ! 1) ''Jail_Days'' = Num 1" "(rows ?d ! 1) ''Probation_Days_Clean'' = Num 0"
    "(rows ?d ! 1) ''CommunityControl_Days'' = Num 0"
    "(rows ?d ! 1) ''CommunityService_Hours'' = Num 0"
    using arg_cong [OF example_durations_prepared, of "\<lambda>xs. xs ! 1"]
    by (simp_all add: rows_example_durations)
  from has_sentence_iff_positive [OF m0] c0
  have h0: "(rows ?d ! 0) ''Has_Sentence'' = Flag False" by auto
  from has_sentence_iff_positive [OF m1] c1
  have h1: "(rows ?d ! 1) ''Has_Sentence'' = Flag True" by auto
  from m0 m1 h0 h1 show ?thesis by simp
qed








lemma load_data_columns:
  "{''Jail_Days'', ''Probation_Days_Clean'', ''CommunityControl_Days'',
    ''CommunityService_Hours'', ''Has_Sentence'', ''Judge_Full_Name''}
   \<subseteq> set (columns (load_data L src))"
  using load_data_cases [of L src]
  by (auto simp: prepare_columns create_sample_data_def sample_columns_def)










section \<open>Properties of the cycle\<close>

lemma select_equal_shape:
  "select_equal c v d = Inr f \<Longrightarrow> columns f = columns d \<and> rows f = filter (\<lambda>r. r c = v) (rows d)"
  by (auto simp: select_equal_def split: if_splits)

lemma judge_filter_prepared:
  "judge_filter X (load_data L src) =
     Inr ((load_data L src)\<lparr>rows :=
            filter (\<lambda>r. X \<noteq> ''all'' \<longrightarrow> r ''Judge_Full_Name'' = Str X) (rows (load_data L src))\<rparr>)"
  using load_data_columns [of L src] by (auto simp: judge_filter_def select_equal_def)

text \<open>
  Claim C9. On every prepared table, the judge filter for \<open>X\<close> followed by the charge
  filter for \<open>Y\<close> gives the same result as the charge filter followed by the judge filter:
  the same table with the same rows, or the same \<^verbatim>\<open>KeyError\<close> when the table has no
  charge column.
\<close>

theorem filters_commute:
  "and_then (judge_filter X (load_data L src)) (charge_filter Y) =
   and_then (charge_filter Y (load_data L src)) (judge_filter X)"
proof -
  have j: "''Judge_Full_Name'' \<in> set (columns (load_data L src))"
    using load_data_columns [of L src] by blast
  show ?thesis
  proof (cases "''ChargeOffenseDescription'' \<in> set (columns (load_data L src))")
    case True
    with j show ?thesis
      by (auto simp: judge_filter_def charge_filter_def select_equal_def conj_commute
            intro!: filter_cong)
  next
    case False
    with j show ?thesis
      by (auto simp: judge_filter_def charge_filter_def select_equal_def)
  qed
qed

text \<open>
  Claim C10. For every sentence selection other than \<^verbatim>\<open>with_sentence\<close> and
  \<^verbatim>\<open>no_sentence\<close>, documented or not, the sentence filter keeps every row, and the whole
  cycle returns what it returns for \<^verbatim>\<open>all\<close>.
\<close>

theorem sentence_filter_default:
  assumes "selected_sentence \<noteq> ''with_sentence''" and "selected_sentence \<noteq> ''no_sentence''"
  shows "sentence_filter selected_sentence d = Inr d \<and>
         update_dashboard df selected_judge selected_charge selected_sentence =
         update_dashboard df selected_judge selected_charge ''all''"
proof -
  have "sentence_filter selected_sentence = sentence_filter ''all''"
    using assms by (intro ext) (simp add: sentence_filter_def)
  then show ?thesis
    using assms by (simp add: update_dashboard_def filtered_df_def sentence_filter_def)
qed

theorem sentence_filter_default_witness:
  "''anything else'' \<noteq> ''with_sentence'' \<and> ''anything else'' \<noteq> ''no_sentence'' \<and>
   sentence_filter ''anything else'' create_sample_data = Inr create_sample_data \<and>
   update_dashboard create_sample_data ''all'' ''all'' ''anything else'' =
   update_dashboard create_sample_data ''all'' ''all'' ''all''"
  using sentence_filter_default [of "''anything else''" create_sample_data create_sample_data
      "''all''" "''all''"]
  by simp

lemma numbers_Nil [simp]: "numbers c [] = []"
  by (simp add: numbers_def)

lemma texts_Nil [simp]: "texts c [] = []"
  by (simp add: texts_def)

text \<open>
  Claim C7. When the selections filter the table down to no row, the cycle raises nothing
  and returns: a summary with the count 0 and the three placeholders, the note that there
  are no sentences in each of the four distributions, the note that there is no data in the
  comparison chart, and no table record.
\<close>

theorem empty_view_placeholders:
  assumes "filtered_df df selected_judge selected_charge selected_sentence = Inr f"
    and "rows f = []"
  shows "update_dashboard df selected_judge selected_charge selected_sentence =
     Inr \<lparr>summary_out =
            \<lparr>cases_in_view = 0,
             cases_with_sentences = Placeholder ''No data'',
             average_jail = Placeholder ''No jail sentences'',
             average_probation = Placeholder ''No probation sentences''\<rparr>,
          jail_fig = Annotation ''No jail sentences in filtered data'',
          probation_fig = Annotation ''No probation sentences in filtered data'',
          cc_fig = Annotation ''No community control sentences in filtered data'',
          cs_fig = Annotation ''No community service sentences in filtered data'',
          comparison_fig = Annotation ''No data to display'',
          table_out = []\<rparr>"
  using assms
  by (simp add: update_dashboard_def render_def comparison_def summary_stats_def
        distribution_def positive_values_def table_data_def)

lemma sample_no_such_judge:
  "filtered_df create_sample_data ''NoSuchJudge'' ''all'' ''all'' =
     Inr (create_sample_data\<lparr>rows := []\<rparr>)"
  by (simp add: filtered_df_def judge_filter_def charge_filter_def sentence_filter_def
        select_equal_def create_sample_data_def sample_columns_def sample_row_cells)

theorem empty_view_placeholders_witness:
  "filtered_df create_sample_data ''NoSuchJudge'' ''all'' ''all'' =
     Inr (create_sample_data\<lparr>rows := []\<rparr>) \<and>
   rows (create_sample_data\<lparr>rows := []\<rparr>) = [] \<and>
   update_dashboard create_sample_data ''NoSuchJudge'' ''all'' ''all'' =
     Inr \<lparr>summary_out =
            \<lparr>cases_in_view = 0,
             cases_with_sentences = Placeholder ''No data'',
             average_jail = Placeholder ''No jail sentences'',
             average_probation = Placeholder ''No probation sentences''\<rparr>,
          jail_fig = Annotation ''No jail sentences in filtered data'',
          probation_fig = Annotation ''No probation sentences in filtered data'',
          cc_fig = Annotation ''No community control sentences in filtered data'',
          cs_fig = Annotation ''No community service sentences in filtered data'',
          comparison_fig = Annotation ''No data to display'',
          table_out = []\<rparr>"
proof -
  have e: "rows (create_sample_data\<lparr>rows := []\<rparr>) = []" by simp
  from empty_view_placeholders [OF sample_no_such_judge e] sample_no_such_judge e
  show ?thesis by blast
qed

lemma example_jail_prepared:
  "map (\<lambda>r. (r ''Jail_Days'', r ''Probation_Days_Clean''))
     (rows (load_data plain_pandas (Csv example_jail))) =
   [(Num 0, Num 30), (Num 0, Num 0), (Num 10, Num 60)]"
  by (simp add: eval_defs example_jail_def)

lemma filtered_rows_subset:
  assumes "filtered_df df sj sc ss = Inr f"
  shows "set (rows f) \<subseteq> set (rows df)"
proof -
  from assms obtain a b where a: "judge_filter sj df = Inr a"
    and b: "charge_filter sc a = Inr b" and f: "sentence_filter ss b = Inr f"
    by (auto simp: filtered_df_def and_then_Inr_iff)
  from a have "set (rows a) \<subseteq> set (rows df)"
    by (auto simp: judge_filter_def select_equal_def split: if_splits)
  moreover from b have "set (rows b) \<subseteq> set (rows a)"
    by (auto simp: charge_filter_def select_equal_def split: if_splits)
  moreover from f have "set (rows f) \<subseteq> set (rows b)"
    by (auto simp: sentence_filter_def select_equal_def split: if_splits)
  ultimately show ?thesis by blast
qed

lemma numbers_of_numeric:
  "\<forall>r\<in>set rs. \<exists>x. r c = Num x \<Longrightarrow> map Num (numbers c rs) = map (\<lambda>r. r c) rs"
  by (induction rs) (auto simp: numbers_def List.map_filter_simps)

lemma prepared_row_numbers:
  assumes "\<forall>r\<in>set rs. prepared_row r"
  shows "map Num (numbers ''Jail_Days'' rs) = map (\<lambda>r. r ''Jail_Days'') rs"
    and "map Num (numbers ''Probation_Days_Clean'' rs) = map (\<lambda>r. r ''Probation_Days_Clean'') rs"
    and "map Num (numbers ''CommunityControl_Days'' rs) = map (\<lambda>r. r ''CommunityControl_Days'') rs"
    and "map Num (numbers ''CommunityService_Hours'' rs) = map (\<lambda>r. r ''CommunityService_Hours'') rs"
  using assms by (auto intro!: numbers_of_numeric simp: prepared_row_def)

lemma update_dashboard_Inr:
  assumes "filtered_df df sj sc ss = Inr f" and "update_dashboard df sj sc ss = Inr out"
  shows "summary_out out = summary_stats f" and "comparison sj sc f = Inr (comparison_fig out)"
    and "table_out out = table_data f"
  using assms by (auto simp: update_dashboard_def render_def and_then_Inr_iff)

text \<open>
  Claim C6. On every prepared table and for every selection, the numbers of the jail days
  column of the filtered rows are the jail days of those rows, and the average jail time of
  the summary is the sum of the strictly positive ones divided by how many they are; rows
  with zero jail days enter neither the sum nor the count. When no row has positive jail
  days the placeholder is shown. The same holds for the average probation. Jail days
  0, 0 and 10 give the average 10.
\<close>

theorem averages_over_positive_rows:
  assumes "filtered_df (load_data L src) selected_judge selected_charge selected_sentence = Inr f"
    and "update_dashboard (load_data L src) selected_judge selected_charge selected_sentence
           = Inr out"
  shows "map Num (numbers ''Jail_Days'' (rows f)) = map (\<lambda>r. r ''Jail_Days'') (rows f) \<and>
     map Num (numbers ''Probation_Days_Clean'' (rows f)) =
       map (\<lambda>r. r ''Probation_Days_Clean'') (rows f) \<and>
     average_jail (summary_out out) =
       (if filter (\<lambda>x. 0 < x) (numbers ''Jail_Days'' (rows f)) = []
        then Placeholder ''No jail sentences''
        else Shown (sum_list (filter (\<lambda>x. 0 < x) (numbers ''Jail_Days'' (rows f))) /
                    real (length (filter (\<lambda>x. 0 < x) (numbers ''Jail_Days'' (rows f)))))) \<and>
     average_probation (summary_out out) =
       (if filter (\<lambda>x. 0 < x) (numbers ''Probation_Days_Clean'' (rows f)) = []
        then Placeholder ''No probation sentences''
        else Shown (sum_list (filter (\<lambda>x. 0 < x) (numbers ''Probation_Days_Clean'' (rows f))) /
                    real (length (filter (\<lambda>x. 0 < x)
                                    (numbers ''Probation_Days_Clean'' (rows f))))))"
proof -
  have "\<forall>r\<in>set (rows f). prepared_row r"
    using filtered_rows_subset [OF assms(1)] load_data_prepared by blast
  from prepared_row_numbers(1,2) [OF this] update_dashboard_Inr(1) [OF assms]
  show ?thesis
    by (simp add: summary_stats_def positive_values_def mean_def)
qed

lemma render_all:
  "\<exists>out. render ''all'' ''all'' f = Inr out"
  by (simp add: render_def comparison_def)

lemma filtered_all: "filtered_df df ''all'' ''all'' ''all'' = Inr df"
  by (simp add: filtered_df_def judge_filter_def charge_filter_def sentence_filter_def)

theorem averages_over_positive_rows_witness:
  "filtered_df (load_data plain_pandas (Csv example_jail)) ''all'' ''all'' ''all'' =
     Inr (load_data plain_pandas (Csv example_jail)) \<and>
   map (\<lambda>r. r ''Jail_Days'') (rows (load_data plain_pandas (Csv example_jail))) =
     [Num 0, Num 0, Num 10] \<and>
   (\<exists>out. update_dashboard (load_data plain_pandas (Csv example_jail)) ''all'' ''all'' ''all''
            = Inr out \<and>
          average_jail (summary_out out) = Shown 10 \<and>
          average_probation (summary_out out) = Shown 45)"
proof -
  let ?d = "load_data plain_pandas (Csv example_jail)"
  have f: "filtered_df ?d ''all'' ''all'' ''all'' = Inr ?d" by (rule filtered_all)
  obtain out where out: "update_dashboard ?d ''all'' ''all'' ''all'' = Inr out"
    using render_all [of ?d] by (auto simp: update_dashboard_def filtered_all)
  have j: "map (\<lambda>r. r ''Jail_Days'') (rows ?d) = [Num 0, Num 0, Num 10]"
    and p: "map (\<lambda>r. r ''Probation_Days_Clean'') (rows ?d) = [Num 30, Num 0, Num 60]"
    using arg_cong [OF example_jail_prepared, of "map fst"]
      arg_cong [OF example_jail_prepared, of "map snd"]
    by (simp_all add: comp_def)
  note t = averages_over_positive_rows [OF f out]
  have inj: "\<And>xs ys. map Num xs = map Num ys \<Longrightarrow> xs = ys"
    by (simp add: inj_map_eq_map inj_on_def)
  from t j have "map Num (numbers ''Jail_Days'' (rows ?d)) = map Num [0, 0, 10]" by simp
  then have nj': "numbers ''Jail_Days'' (rows ?d) = [0, 0, 10]" by (rule inj)
  from t p have "map Num (numbers ''Probation_Days_Clean'' (rows ?d)) = map Num [30, 0, 60]"
    by simp
  then have np': "numbers ''Probation_Days_Clean'' (rows ?d) = [30, 0, 60]" by (rule inj)
  from t have "average_jail (summary_out out) = Shown 10"
    "average_probation (summary_out out) = Shown 45"
    by (simp_all add: nj' np')
  with f j out show ?thesis by blast
qed

lemmas dash_defs = update_dashboard_def filtered_df_def judge_filter_def charge_filter_def
  sentence_filter_def select_equal_def render_def comparison_def group_summary_def
  aggregate_def by_count_descending_def texts_def numbers_def mean_def round_to_def rint_def
  Let_def

lemma example_cases_comparison:
  "comparison ''Smith'' ''all'' (load_data plain_pandas (Csv example_cases)) =
     Inr (GroupedBars ''ChargeOffenseDescription''
       [\<lparr>group_key = ''DUI'', mean_jail = 20, mean_probation = 0, mean_control = 0,
         mean_service = 0, case_count = 1\<rparr>,
        \<lparr>group_key = ''THEFT'', mean_jail = 10, mean_probation = 0, mean_control = 0,
         mean_service = 0, case_count = 0\<rparr>])"
  by (simp add: eval_defs example_cases_def dash_defs)

lemma by_count_descending_set [simp]:
  "set (by_count_descending f xs) = set xs"
  "length (by_count_descending f xs) = length xs"
  by (simp_all add: by_count_descending_def)

lemma by_count_descending_distinct [simp]:
  "distinct (by_count_descending f xs) = distinct xs"
  by (simp add: by_count_descending_def)













end
